theory Spec2Isabelle
  imports Main
begin

unbundle bit_operations_syntax

section \<open>The nufs file system image: data model\<close>

text \<open>
  The program keeps all of its state in one memory-mapped image file. The model keeps the
  header of block 0 (the two bitmaps and the root slot) and the inode table as typed
  components, and the data area as a flat byte memory addressed by image offset, so that
  a directory block is read and written byte for byte as the C code does.

  C \<open>int\<close> values are modelled as \<open>int\<close>; every store that converts from a wider C type
  goes through \<open>to_int32\<close>. A pointer \<open>inode_t *\<close> is the number of the inode it points at
  (\<open>None\<close> is \<open>NULL\<close>), a pointer into the data area is its image offset.
\<close>

subsection \<open>Constants\<close>

text \<open>Modelled from the spec: \<open>BLOCK_SIZE\<close> is declared in \<open>helpers/blocks.h\<close>; the spec
  fixes B = 4096.\<close>

definition BLOCK_SIZE :: int where
  "BLOCK_SIZE = 4096"

definition INODE_COUNT :: int where
  "INODE_COUNT = 256"

definition DIR_NAME_LENGTH :: int where
  "DIR_NAME_LENGTH = 48"

text \<open>\<open>sizeof(dir_entry_t)\<close>: 48 bytes of name, a 4-byte \<open>int\<close>, 12 reserved bytes.\<close>

definition sizeof_dir_entry :: int where
  "sizeof_dir_entry = 64"

definition ENOENT :: int where "ENOENT = 2"
definition EEXIST :: int where "EEXIST = 17"
definition ENOTDIR :: int where "ENOTDIR = 20"
definition EISDIR :: int where "EISDIR = 21"
definition EINVAL :: int where "EINVAL = 22"
definition ENOSPC :: int where "ENOSPC = 28"

definition S_IFMT :: int where "S_IFMT = 61440"
definition S_IFDIR :: int where "S_IFDIR = 16384"
definition S_IFREG :: int where "S_IFREG = 32768"

definition S_ISDIR :: "int \<Rightarrow> bool" where
  "S_ISDIR m = (m AND S_IFMT = S_IFDIR)"

definition S_ISREG :: "int \<Rightarrow> bool" where
  "S_ISREG m = (m AND S_IFMT = S_IFREG)"

definition NUL :: char where
  "NUL = CHR 0x00"

subsection \<open>C integer conversions\<close>

definition to_size_t :: "int \<Rightarrow> int" where
  "to_size_t x = x mod 18446744073709551616"

definition to_int32 :: "int \<Rightarrow> int" where
  "to_int32 x = (let u = x mod 4294967296 in if u < 2147483648 then u else u - 4294967296)"

definition int32 :: "int \<Rightarrow> bool" where
  "int32 x = (- 2147483648 \<le> x \<and> x < 2147483648)"

subsection \<open>Records of the image\<close>

text \<open>\<open>struct inode\<close> of \<open>inode.h\<close>; the field \<open>size\<close> is named \<open>fsize\<close> here.\<close>

record inode =
  inum :: int
  refs :: int
  mode :: int
  fsize :: int
  block :: int
  atime :: int
  mtime :: int
  ctime :: int

text \<open>
  The mapped image. \<open>nblocks\<close> is the block count T and \<open>nreserved\<close> the number of
  header and inode-table blocks (block 0 and the K table blocks); both belong to
  \<open>helpers/blocks.c\<close>, which is not among the sources, and are parameters of the image.
  \<open>mem\<close> is the byte memory of the image by offset; only the data area (blocks
  \<open>nreserved\<close> .. \<open>nblocks - 1\<close>) is accessed through it.
\<close>

record image =
  nblocks :: int
  nreserved :: int
  block_bitmap :: "int \<Rightarrow> bool"
  inode_bitmap :: "int \<Rightarrow> bool"
  root_block :: int
  inodes :: "int \<Rightarrow> inode"
  mem :: "int \<Rightarrow> char"

text \<open>
  Ways in which the C program leaves defined behaviour: a \<open>NULL\<close> inode pointer is
  dereferenced, a block view outside the data area is used (outside the mapping, or
  aliasing the header and inode table that the model keeps apart), \<open>memcpy\<close> reads more
  bytes than the buffer holds, or \<open>storage_init\<close> calls \<open>exit(1)\<close>.
\<close>

datatype fault = NullDeref | BadBlock | BadBuffer | Exit

subsection \<open>C strings and memory primitives\<close>

definition c_str :: "string \<Rightarrow> string" where
  "c_str s = takeWhile (\<lambda>c. c \<noteq> NUL) s"

text \<open>\<open>strcmp(p, name) == 0\<close> for a string \<open>p\<close> in memory at offset \<open>a\<close>.\<close>

fun str_eq_at :: "(int \<Rightarrow> char) \<Rightarrow> int \<Rightarrow> string \<Rightarrow> bool" where
  "str_eq_at m a [] = (m a = NUL)"
| "str_eq_at m a (c # cs) =
     (if c = NUL then m a = NUL else (m a = c \<and> str_eq_at m (a + 1) cs))"

definition memset :: "(int \<Rightarrow> char) \<Rightarrow> int \<Rightarrow> char \<Rightarrow> int \<Rightarrow> (int \<Rightarrow> char)" where
  "memset m a c n = (\<lambda>x. if a \<le> x \<and> x < a + n then c else m x)"

definition memmove :: "(int \<Rightarrow> char) \<Rightarrow> int \<Rightarrow> int \<Rightarrow> int \<Rightarrow> (int \<Rightarrow> char)" where
  "memmove m dst src n = (\<lambda>x. if dst \<le> x \<and> x < dst + n then m (src + (x - dst)) else m x)"

text \<open>\<open>memcpy(dst, buf, n)\<close> from a buffer holding at least \<open>n\<close> bytes.\<close>

definition memcpy :: "(int \<Rightarrow> char) \<Rightarrow> int \<Rightarrow> string \<Rightarrow> int \<Rightarrow> (int \<Rightarrow> char)" where
  "memcpy m dst buf n = (\<lambda>x. if dst \<le> x \<and> x < dst + n then buf ! nat (x - dst) else m x)"

text \<open>\<open>strncpy(dst, src, n)\<close>: exactly \<open>n\<close> bytes are written, the characters of \<open>src\<close>
  and then NUL padding.\<close>

definition strncpy :: "(int \<Rightarrow> char) \<Rightarrow> int \<Rightarrow> string \<Rightarrow> int \<Rightarrow> (int \<Rightarrow> char)" where
  "strncpy m dst src n =
     (\<lambda>x. if dst \<le> x \<and> x < dst + n
           then (if nat (x - dst) < length (c_str src) then c_str src ! nat (x - dst) else NUL)
           else m x)"

text \<open>\<open>strcpy(dst, src)\<close>: the characters of \<open>src\<close> and the terminating NUL.\<close>

definition strcpy :: "(int \<Rightarrow> char) \<Rightarrow> int \<Rightarrow> string \<Rightarrow> (int \<Rightarrow> char)" where
  "strcpy m dst src = strncpy m dst src (int (length (c_str src)) + 1)"

text \<open>A 4-byte little-endian two's complement \<open>int\<close> in memory.\<close>

definition store_int :: "(int \<Rightarrow> char) \<Rightarrow> int \<Rightarrow> int \<Rightarrow> (int \<Rightarrow> char)" where
  "store_int m a v =
     (\<lambda>x. if x = a then char_of v
           else if x = a + 1 then char_of (v div 256)
           else if x = a + 2 then char_of (v div 65536)
           else if x = a + 3 then char_of (v div 16777216)
           else m x)"

definition load_int :: "(int \<Rightarrow> char) \<Rightarrow> int \<Rightarrow> int" where
  "load_int m a =
     to_int32 (of_char (m a) + 256 * of_char (m (a + 1)) + 65536 * of_char (m (a + 2))
       + 16777216 * of_char (m (a + 3)))"

text \<open>The fields of \<open>entries[i]\<close> for a directory block at offset \<open>entries\<close>.\<close>

definition entry_name :: "int \<Rightarrow> int \<Rightarrow> int" where
  "entry_name entries i = entries + sizeof_dir_entry * i"

definition entry_inum :: "int \<Rightarrow> int \<Rightarrow> int" where
  "entry_inum entries i = entries + sizeof_dir_entry * i + DIR_NAME_LENGTH"

text \<open>\<open>int count = dir->size / sizeof(dir_entry_t)\<close>: the division is done in
  \<open>size_t\<close> and the quotient converted back to \<open>int\<close>.\<close>

definition entry_count :: "int \<Rightarrow> int" where
  "entry_count sz = to_int32 (to_size_t sz div sizeof_dir_entry)"

section \<open>helpers/bitmap and helpers/blocks\<close>

text \<open>
  \<open>helpers/bitmap.c\<close> and \<open>helpers/blocks.c\<close> are code of this repository that is not
  among the sources; the definitions of this section are modelled from the spec.
\<close>

text \<open>Modelled from the spec: \<open>bitmap_get\<close> of \<open>helpers/bitmap.c\<close>. Section 4.2:
  \<open>bit_get(buf, n)\<close> reads bit n, with no bounds check. A bitmap is the function from
  bit number to bit; a bit outside the bitmap's domain is a cell of its own here.\<close>

definition bitmap_get :: "(int \<Rightarrow> bool) \<Rightarrow> int \<Rightarrow> bool" where
  "bitmap_get bm n = bm n"

text \<open>Modelled from the spec: \<open>bitmap_put\<close> of \<open>helpers/bitmap.c\<close>. Section 4.2:
  \<open>bit_put(buf, n, v)\<close> writes bit n, with no bounds check.\<close>

definition bitmap_put :: "(int \<Rightarrow> bool) \<Rightarrow> int \<Rightarrow> bool \<Rightarrow> (int \<Rightarrow> bool)" where
  "bitmap_put bm n v = bm(n := v)"

text \<open>The scan \<open>for (i = 0; i < n; ++i) if (!bitmap_get(bm, i)) ...\<close> of \<open>alloc_inode\<close>
  (and, by the spec, of \<open>alloc_block\<close>): the first clear bit from \<open>i\<close> on, or -1.\<close>

function first_clear :: "(int \<Rightarrow> bool) \<Rightarrow> int \<Rightarrow> int \<Rightarrow> int" where
  "first_clear bm n i =
     (if i < n then (if bitmap_get bm i then first_clear bm n (i + 1) else i) else - 1)"
  by pat_completeness auto
termination
  by (relation "measure (\<lambda>(bm, n, i). nat (n - i))") auto

text \<open>Modelled from the spec: \<open>alloc_block\<close> of \<open>helpers/blocks.c\<close>. Section 4.3: it
  scans the block bitmap from index 0 and returns the first clear bit, setting it, or a
  distinguished "no space" failure: -1 here, every caller tests the result with
  \<open>< 0\<close>.\<close>

definition alloc_block :: "image \<Rightarrow> int \<times> image" where
  "alloc_block s =
     (let i = first_clear (block_bitmap s) (nblocks s) 0
      in if i < 0 then (- 1, s)
         else (i, s\<lparr>block_bitmap := bitmap_put (block_bitmap s) i True\<rparr>))"

text \<open>Modelled from the spec: \<open>free_block\<close> of \<open>helpers/blocks.c\<close>. Section 4.3:
  \<open>free_block(i)\<close> clears bit i.\<close>

definition free_block :: "int \<Rightarrow> image \<Rightarrow> image" where
  "free_block i s = s\<lparr>block_bitmap := bitmap_put (block_bitmap s) i False\<rparr>"

text \<open>Modelled from the spec: \<open>blocks_get_block\<close> of \<open>helpers/blocks.c\<close>. Section 4.1:
  \<open>get_block(i)\<close> is the view at byte offset i * B and fails for i outside [0, T). The
  model also stops at a view of a header or inode-table block, which would alias the
  typed components of the image: the result is \<open>None\<close>, and the caller faults.\<close>

definition blocks_get_block :: "image \<Rightarrow> int \<Rightarrow> int option" where
  "blocks_get_block s b =
     (if nreserved s \<le> b \<and> b < nblocks s then Some (BLOCK_SIZE * b) else None)"

text \<open>A zeroed inode record, as \<open>memset(node, 0, sizeof(inode_t))\<close> leaves it.\<close>

definition zero_inode :: inode where
  "zero_inode = \<lparr>inum = 0, refs = 0, mode = 0, fsize = 0, block = 0,
                 atime = 0, mtime = 0, ctime = 0\<rparr>"

text \<open>Modelled from the spec: the image that \<open>blocks_init\<close> of \<open>helpers/blocks.c\<close> maps
  when the image file has just been created, with T blocks of which the first R are
  the header block and the inode-table blocks. Sections 3 and 4.3: every byte is zero,
  so both bitmaps are clear and the persisted root inode number (read by
  \<open>blocks_get_root_block\<close>, written by \<open>blocks_set_root_block\<close>) is 0, except that the
  bits of block 0 and of the inode-table blocks are set.\<close>

definition fresh_image :: "int \<Rightarrow> int \<Rightarrow> image" where
  "fresh_image T R =
     \<lparr>nblocks = T, nreserved = R,
      block_bitmap = (\<lambda>b. 0 \<le> b \<and> b < R),
      inode_bitmap = (\<lambda>n. False),
      root_block = 0,
      inodes = (\<lambda>n. zero_inode),
      mem = (\<lambda>a. NUL)\<rparr>"

section \<open>inode.c\<close>

definition get_inode :: "int \<Rightarrow> int option" where
  "get_inode n = (if n < 0 \<or> n \<ge> INODE_COUNT then None else Some n)"

definition alloc_inode :: "int \<Rightarrow> image \<Rightarrow> int \<times> image" where
  "alloc_inode now s =
     (let i = first_clear (inode_bitmap s) INODE_COUNT 0
      in if i < 0 then (- 1, s)
         else (i, s\<lparr>inode_bitmap := bitmap_put (inode_bitmap s) i True,
                    inodes := (inodes s)
                      (i := zero_inode\<lparr>inum := i, refs := 1,
                                       atime := now, mtime := now, ctime := now\<rparr>)\<rparr>))"

definition free_inode :: "int \<Rightarrow> image \<Rightarrow> fault + image" where
  "free_inode n s =
     (let s1 = s\<lparr>inode_bitmap := bitmap_put (inode_bitmap s) n False\<rparr>
      in case get_inode n of
           None \<Rightarrow> Inl NullDeref
         | Some node \<Rightarrow>
             if block (inodes s1 node) = 0 then Inr s1
             else Inr (free_block (block (inodes s1 node)) s1))"

section \<open>directory.c\<close>

function lookup_loop :: "(int \<Rightarrow> char) \<Rightarrow> int \<Rightarrow> string \<Rightarrow> int \<Rightarrow> int \<Rightarrow> int" where
  "lookup_loop m entries name count i =
     (if i < count
      then (if str_eq_at m (entry_name entries i) name
            then load_int m (entry_inum entries i)
            else lookup_loop m entries name count (i + 1))
      else - ENOENT)"
  by pat_completeness auto
termination
  by (relation "measure (\<lambda>(m, entries, name, count, i). nat (count - i))") auto

text \<open>The \<open>name\<close> argument is never \<open>NULL\<close> at a call site and is a string here.\<close>

definition directory_lookup :: "image \<Rightarrow> int option \<Rightarrow> string \<Rightarrow> fault + int" where
  "directory_lookup s dir name =
     (case dir of
        None \<Rightarrow> Inr (- EINVAL)
      | Some d \<Rightarrow>
          (case blocks_get_block s (block (inodes s d)) of
             None \<Rightarrow> Inl BadBlock
           | Some entries \<Rightarrow>
               Inr (lookup_loop (mem s) entries name (entry_count (fsize (inodes s d))) 0)))"

text \<open>The loop of \<open>directory_put\<close> that looks for a slot to reuse: the index of the first
  slot below \<open>count\<close> whose name starts with NUL, or -1.\<close>

function empty_slot :: "(int \<Rightarrow> char) \<Rightarrow> int \<Rightarrow> int \<Rightarrow> int \<Rightarrow> int" where
  "empty_slot m entries count i =
     (if i < count
      then (if m (entry_name entries i) = NUL then i else empty_slot m entries count (i + 1))
      else - 1)"
  by pat_completeness auto
termination
  by (relation "measure (\<lambda>(m, entries, count, i). nat (count - i))") auto

text \<open>The three statements that write an entry: \<open>strncpy\<close> of at most 47 bytes, the
  terminating NUL at \<open>name[47]\<close>, and the inode number.\<close>

definition write_entry :: "(int \<Rightarrow> char) \<Rightarrow> int \<Rightarrow> int \<Rightarrow> string \<Rightarrow> int \<Rightarrow> (int \<Rightarrow> char)" where
  "write_entry m entries i name n =
     store_int
       (memset (strncpy m (entry_name entries i) name (DIR_NAME_LENGTH - 1))
          (entry_name entries i + (DIR_NAME_LENGTH - 1)) NUL 1)
       (entry_inum entries i) n"

definition directory_put ::
  "image \<Rightarrow> int option \<Rightarrow> string \<Rightarrow> int \<Rightarrow> int \<Rightarrow> fault + (int \<times> image)" where
  "directory_put s dir name n now =
     (case dir of
        None \<Rightarrow> Inr (- ENOTDIR, s)
      | Some d \<Rightarrow>
          if S_ISDIR (mode (inodes s d))
          then (case blocks_get_block s (block (inodes s d)) of
                  None \<Rightarrow> Inl BadBlock
                | Some entries \<Rightarrow>
                    let count = entry_count (fsize (inodes s d));
                        i = empty_slot (mem s) entries count 0
                    in if 0 \<le> i
                       then Inr (0, s\<lparr>mem := write_entry (mem s) entries i name n\<rparr>)
                       else if to_size_t count \<ge> to_size_t (BLOCK_SIZE div sizeof_dir_entry)
                       then Inr (- ENOSPC, s)
                       else Inr (0,
                         s\<lparr>mem := write_entry (mem s) entries count name n,
                           inodes := (inodes s)
                             (d := (inodes s d)
                                \<lparr>fsize := to_int32 (to_size_t (fsize (inodes s d)) + sizeof_dir_entry),
                                 mtime := now\<rparr>)\<rparr>))
          else Inr (- ENOTDIR, s))"

text \<open>The body of \<open>directory_delete\<close> at a matching index \<open>i\<close>, up to
  \<open>dir->size -= sizeof(dir_entry_t)\<close>; the inline copy of the loop in \<open>nufs_unlink\<close>
  has the same statements.\<close>

definition remove_entry :: "image \<Rightarrow> int \<Rightarrow> int \<Rightarrow> int \<Rightarrow> int \<Rightarrow> image" where
  "remove_entry s d entries count i =
     (let m1 = memset (mem s) (entry_name entries i) NUL DIR_NAME_LENGTH;
          m2 = (if i < count - 1
                then memmove m1 (entry_name entries i) (entry_name entries (i + 1))
                       ((count - i - 1) * sizeof_dir_entry)
                else m1);
          m3 = memset m2 (entry_name entries (count - 1)) NUL sizeof_dir_entry
      in s\<lparr>mem := m3,
           inodes := (inodes s)
             (d := (inodes s d)
                \<lparr>fsize := to_int32 (to_size_t (fsize (inodes s d)) - sizeof_dir_entry)\<rparr>)\<rparr>)"

definition set_mtime :: "image \<Rightarrow> int \<Rightarrow> int \<Rightarrow> image" where
  "set_mtime s d now = s\<lparr>inodes := (inodes s)(d := (inodes s d)\<lparr>mtime := now\<rparr>)\<rparr>"

text \<open>The test of the loop of \<open>directory_delete\<close>:
  \<open>entries[i].name[0] != '\0' && strcmp(entries[i].name, name) == 0\<close>.\<close>

definition name_matches :: "(int \<Rightarrow> char) \<Rightarrow> int \<Rightarrow> string \<Rightarrow> int \<Rightarrow> bool" where
  "name_matches m entries name i =
     (if m (entry_name entries i) = NUL then False
      else str_eq_at m (entry_name entries i) name)"

function delete_loop ::
  "image \<Rightarrow> int \<Rightarrow> int \<Rightarrow> string \<Rightarrow> int \<Rightarrow> int \<Rightarrow> int \<Rightarrow> int \<times> image" where
  "delete_loop s d entries name count now i =
     (if i < count
      then (if name_matches (mem s) entries name i
            then (0, set_mtime (remove_entry s d entries count i) d now)
            else delete_loop s d entries name count now (i + 1))
      else (- ENOENT, s))"
  by pat_completeness auto
termination
  by (relation "measure (\<lambda>(s, d, entries, name, count, now, i). nat (count - i))") auto

definition directory_delete ::
  "image \<Rightarrow> int option \<Rightarrow> string \<Rightarrow> int \<Rightarrow> fault + (int \<times> image)" where
  "directory_delete s dir name now =
     (case dir of
        None \<Rightarrow> Inr (- EINVAL, s)
      | Some d \<Rightarrow>
          if S_ISDIR (mode (inodes s d))
          then (case blocks_get_block s (block (inodes s d)) of
                  None \<Rightarrow> Inl BadBlock
                | Some entries \<Rightarrow>
                    Inr (delete_loop s d entries name (entry_count (fsize (inodes s d))) now 0))
          else Inr (- ENOTDIR, s))"

section \<open>storage.c\<close>

text \<open>
  Left out of the model: the output of \<open>printf\<close>; \<open>blocks_flush\<close>, which does not
  change the mapped image; and the failure of \<open>strdup\<close>, which is taken to succeed
  (where the source tests it, the \<open>-ENOMEM\<close> return comes before any access to the
  image). The current time \<open>time(NULL)\<close> is the argument \<open>now\<close> of each function that
  reads it. Each function returns \<open>Inl\<close> of a fault, or \<open>Inr\<close> of the C return value and
  the image it leaves.
\<close>

text \<open>\<open>strtok_r(path, "/", ...)\<close> called until it returns \<open>NULL\<close>: the non-empty
  components of the path between slashes, in order. The second argument is the component
  being read, reversed.\<close>

fun strtok_all :: "string \<Rightarrow> string \<Rightarrow> string list" where
  "strtok_all [] tok = (if tok = [] then [] else [rev tok])"
| "strtok_all (c # cs) tok =
     (if c = CHR ''/''
      then (if tok = [] then strtok_all cs [] else rev tok # strtok_all cs [])
      else strtok_all cs (c # tok))"

text \<open>The \<open>while (component)\<close> loop of \<open>storage_lookup_path\<close>.\<close>

fun lookup_components :: "image \<Rightarrow> int \<Rightarrow> string list \<Rightarrow> fault + int" where
  "lookup_components s current_inum [] = Inr current_inum"
| "lookup_components s current_inum (component # rest) =
     (case get_inode current_inum of
        None \<Rightarrow> Inr (- ENOTDIR)
      | Some current \<Rightarrow>
          if S_ISDIR (mode (inodes s current))
          then (case directory_lookup s (Some current) component of
                  Inl f \<Rightarrow> Inl f
                | Inr next_inum \<Rightarrow>
                    if next_inum < 0 then Inr (- ENOENT)
                    else lookup_components s next_inum rest)
          else Inr (- ENOTDIR))"

definition storage_lookup_path :: "image \<Rightarrow> string \<Rightarrow> fault + int" where
  "storage_lookup_path s path =
     (if c_str path = ''/'' then Inr 0
      else lookup_components s 0 (strtok_all (c_str path) []))"

text \<open>\<open>strrchr(path_copy, '/')\<close> followed by \<open>*filename++ = '\0'\<close>: the path before
  its last slash and the name after it; \<open>None\<close> when the path has no slash.\<close>

definition strrchr_split :: "string \<Rightarrow> (string \<times> string) option" where
  "strrchr_split path =
     (let p = rev (c_str path)
      in if CHR ''/'' \<in> set p
         then Some (rev (tl (dropWhile (\<lambda>c. c \<noteq> CHR ''/'') p)),
                    rev (takeWhile (\<lambda>c. c \<noteq> CHR ''/'') p))
         else None)"

text \<open>\<open>(path_copy[0] == '\0') ? "/" : path_copy\<close>.\<close>

definition parent_path_of :: "string \<Rightarrow> string" where
  "parent_path_of path_copy = (if path_copy = [] then ''/'' else path_copy)"

text \<open>\<open>storage_init\<close> after \<open>blocks_init\<close> has mapped the image. \<open>new_root->size\<close> is
  set to \<open>5 * sizeof(dir_entry_t)\<close> by the source.\<close>

definition storage_init :: "int \<Rightarrow> image \<Rightarrow> fault + image" where
  "storage_init now s =
     (let root_inum = root_block s
      in if root_inum \<le> 0 \<or> get_inode root_inum = None
            \<or> \<not> S_ISDIR (mode (inodes s root_inum))
         then (case alloc_inode now s of
                 (new_inum, s1) \<Rightarrow>
                   (case get_inode new_inum of
                      None \<Rightarrow> Inl NullDeref
                    | Some new_root \<Rightarrow>
                        (case alloc_block
                                (s1\<lparr>inodes := (inodes s1)
                                   (new_root := (inodes s1 new_root)\<lparr>mode := S_IFDIR OR 493\<rparr>)\<rparr>) of
                           (b, s2) \<Rightarrow>
                             (case blocks_get_block s2 b of
                                None \<Rightarrow> Inl BadBlock
                              | Some entries \<Rightarrow>
                                  let m1 = memset (mem s2) entries NUL BLOCK_SIZE;
                                      m2 = strcpy m1 (entry_name entries 0) ''.'';
                                      m3 = store_int m2 (entry_inum entries 0) new_inum;
                                      m4 = strcpy m3 (entry_name entries 1) ''..'';
                                      m5 = store_int m4 (entry_inum entries 1) new_inum;
                                      s3 = s2\<lparr>root_block := new_inum, mem := m5,
                                             inodes := (inodes s2)
                                               (new_root := (inodes s2 new_root)
                                                  \<lparr>block := b, fsize := 5 * sizeof_dir_entry\<rparr>)\<rparr>
                                  in if S_ISDIR (mode (inodes s3 new_root)) then Inr s3
                                     else Inl Exit))))
         else Inr s)"

text \<open>C integer division truncates towards zero.\<close>

definition c_div :: "int \<Rightarrow> int \<Rightarrow> int" where
  "c_div a b = sgn a * sgn b * (\<bar>a\<bar> div \<bar>b\<bar>)"

text \<open>The allocation loop of \<open>storage_write\<close>, \<open>for (i = current_blocks; i <
  required_blocks; i++)\<close>: \<open>Some\<close> of the image when the loop ends, \<open>None\<close> when
  \<open>alloc_block\<close> fails and the function returns \<open>-ENOSPC\<close> without undoing the
  allocations made so far.\<close>

function write_alloc_loop :: "image \<Rightarrow> int \<Rightarrow> int \<Rightarrow> int \<Rightarrow> image \<times> bool" where
  "write_alloc_loop s node required_blocks i =
     (if i < required_blocks
      then (case alloc_block s of
              (new_block, s1) \<Rightarrow>
                if new_block < 0 then (s1, False)
                else write_alloc_loop
                       (if i = 0
                        then s1\<lparr>inodes := (inodes s1)
                                 (node := (inodes s1 node)\<lparr>block := new_block\<rparr>)\<rparr>
                        else s1)
                       node required_blocks (i + 1))
      else (s, True))"
  by pat_completeness auto
termination
  by (relation "measure (\<lambda>(s, node, required_blocks, i). nat (required_blocks - i))") auto

definition storage_write ::
  "image \<Rightarrow> string \<Rightarrow> string \<Rightarrow> int \<Rightarrow> int \<Rightarrow> fault + (int \<times> image)" where
  "storage_write s path buf sz offset =
     (case storage_lookup_path s path of
        Inl f \<Rightarrow> Inl f
      | Inr n \<Rightarrow>
          if n < 0 then Inr (- ENOENT, s)
          else (case get_inode n of
                  None \<Rightarrow> Inr (- EISDIR, s)
                | Some node \<Rightarrow>
                    if S_ISREG (mode (inodes s node))
                    then
                      let required_blocks =
                            to_size_t (offset + sz + BLOCK_SIZE - 1) div BLOCK_SIZE;
                          current_blocks =
                            to_size_t (c_div (to_int32 (fsize (inodes s node) + BLOCK_SIZE - 1))
                                         BLOCK_SIZE)
                      in (case write_alloc_loop s node required_blocks current_blocks of
                            (s1, finished) \<Rightarrow>
                              if finished
                              then (case blocks_get_block s1 (block (inodes s1 node)) of
                                      None \<Rightarrow> Inl BadBlock
                                    | Some blk \<Rightarrow>
                                        if int (length buf) < sz then Inl BadBuffer
                                        else
                                          let s2 = s1\<lparr>mem := memcpy (mem s1) (blk + offset) buf sz\<rparr>
                                          in Inr (to_int32 sz,
                                               if to_size_t (offset + sz)
                                                    > to_size_t (fsize (inodes s2 node))
                                               then s2\<lparr>inodes := (inodes s2)
                                                      (node := (inodes s2 node)
                                                         \<lparr>fsize := to_int32 (offset + sz)\<rparr>)\<rparr>
                                               else s2))
                              else Inr (- ENOSPC, s1))
                    else Inr (- EISDIR, s)))"

text \<open>The part that \<open>storage_mknod\<close> and \<open>storage_mknod_at\<close> share word for word:
  \<open>node->mode = mode; node->size = 0; node->block = alloc_block();\<close>.\<close>

definition init_file_inode :: "image \<Rightarrow> int \<Rightarrow> int \<Rightarrow> image" where
  "init_file_inode s node mode_arg =
     (case alloc_block
             (s\<lparr>inodes := (inodes s)
                (node := (inodes s node)\<lparr>mode := to_int32 mode_arg, fsize := 0\<rparr>)\<rparr>) of
        (b, s1) \<Rightarrow> s1\<lparr>inodes := (inodes s1)(node := (inodes s1 node)\<lparr>block := b\<rparr>)\<rparr>)"

definition storage_mknod :: "image \<Rightarrow> string \<Rightarrow> int \<Rightarrow> int \<Rightarrow> fault + (int \<times> image)" where
  "storage_mknod s path mode_arg now =
     (case strrchr_split path of
        None \<Rightarrow> Inr (- EINVAL, s)
      | Some (path_copy, filename) \<Rightarrow>
          (case storage_lookup_path s (parent_path_of path_copy) of
             Inl f \<Rightarrow> Inl f
           | Inr parent_inum \<Rightarrow>
               if parent_inum < 0 then Inr (parent_inum, s)
               else (case get_inode parent_inum of
                       None \<Rightarrow> Inr (- ENOTDIR, s)
                     | Some parent \<Rightarrow>
                         if S_ISDIR (mode (inodes s parent))
                         then (case directory_lookup s (Some parent) filename of
                                 Inl f \<Rightarrow> Inl f
                               | Inr found \<Rightarrow>
                                   if found \<ge> 0 then Inr (- EEXIST, s)
                                   else (case alloc_inode now s of
                                           (n, s1) \<Rightarrow>
                                             if n < 0 then Inr (- ENOSPC, s1)
                                             else (case get_inode n of
                                                     None \<Rightarrow> Inl NullDeref
                                                   | Some node \<Rightarrow>
                                                       let s2 = init_file_inode s1 node mode_arg
                                                       in if block (inodes s2 node) < 0
                                                          then (case free_inode n s2 of
                                                                  Inl f \<Rightarrow> Inl f
                                                                | Inr s3 \<Rightarrow> Inr (- ENOSPC, s3))
                                                          else (case directory_put s2 (Some parent) filename n now of
                                                                  Inl f \<Rightarrow> Inl f
                                                                | Inr (rv, s3) \<Rightarrow>
                                                                    if rv < 0
                                                                    then (case free_inode n (free_block (block (inodes s3 node)) s3) of
                                                                            Inl f \<Rightarrow> Inl f
                                                                          | Inr s4 \<Rightarrow> Inr (rv, s4))
                                                                    else Inr (0, s3)))))
                         else Inr (- ENOTDIR, s))))"

definition storage_mknod_at :: "image \<Rightarrow> int \<Rightarrow> string \<Rightarrow> int \<Rightarrow> int \<Rightarrow> fault + (int \<times> image)" where
  "storage_mknod_at s parent_inum name mode_arg now =
     (case get_inode parent_inum of
        None \<Rightarrow> Inr (- ENOTDIR, s)
      | Some parent \<Rightarrow>
          if S_ISDIR (mode (inodes s parent))
          then (case directory_lookup s (Some parent) name of
                  Inl f \<Rightarrow> Inl f
                | Inr found \<Rightarrow>
                    if found \<ge> 0 then Inr (- EEXIST, s)
                    else (case alloc_inode now s of
                            (n, s1) \<Rightarrow>
                              if n < 0 then Inr (- ENOSPC, s1)
                              else (case get_inode n of
                                      None \<Rightarrow> Inl NullDeref
                                    | Some node \<Rightarrow>
                                        let s2 = init_file_inode s1 node mode_arg
                                        in if block (inodes s2 node) < 0
                                           then (case free_inode n s2 of
                                                   Inl f \<Rightarrow> Inl f
                                                 | Inr s3 \<Rightarrow> Inr (- ENOSPC, s3))
                                           else directory_put s2 (Some parent) name n now)))
          else Inr (- ENOTDIR, s))"



section \<open>nufs.c\<close>




definition nufs_mknod :: "image \<Rightarrow> string \<Rightarrow> int \<Rightarrow> int \<Rightarrow> fault + (int \<times> image)" where
  "nufs_mknod s path mode_arg now = storage_mknod s path mode_arg now"

definition nufs_write ::
  "image \<Rightarrow> string \<Rightarrow> string \<Rightarrow> int \<Rightarrow> int \<Rightarrow> fault + (int \<times> image)" where
  "nufs_write s path buf sz offset = storage_write s path buf sz offset"





definition nufs_truncate :: "image \<Rightarrow> string \<Rightarrow> int \<Rightarrow> fault + (int \<times> image)" where
  "nufs_truncate s path sz =
     (case storage_lookup_path s path of
        Inl f \<Rightarrow> Inl f
      | Inr n \<Rightarrow>
          if n < 0 then Inr (- ENOENT, s)
          else (case get_inode n of
                  None \<Rightarrow> Inr (- ENOENT, s)
                | Some node \<Rightarrow>
                    Inr (0, s\<lparr>inodes := (inodes s)
                              (node := (inodes s node)\<lparr>fsize := to_int32 sz\<rparr>)\<rparr>)))"

section \<open>Test images\<close>

text \<open>
  An image of 256 blocks, 5 of them header and inode table, whose root directory is
  full: inode 0 is the root with its block 5 holding 64 live entries ("." and "..", then
  62 files named by the single characters "A" .. "~", entry i pointing to inode i - 1),
  inodes 1 .. 62 are empty regular files owning blocks 6 .. 67, and both bitmaps have
  exactly these inodes and blocks set. It is the image that 62 calls of
  \<open>storage_mknod_at\<close> on the root of a fresh image leave, up to time stamps.
\<close>

definition full_root_image :: image where
  "full_root_image =
     \<lparr>nblocks = 256, nreserved = 5,
      block_bitmap = (\<lambda>b. 0 \<le> b \<and> b < 68),
      inode_bitmap = (\<lambda>n. 0 \<le> n \<and> n < 63),
      root_block = 0,
      inodes = (\<lambda>n. if n = 0
                     then \<lparr>inum = 0, refs = 1, mode = 16877, fsize = 4096, block = 5,
                           atime = 0, mtime = 0, ctime = 0\<rparr>
                     else if 1 \<le> n \<and> n < 63
                     then \<lparr>inum = n, refs = 1, mode = 33188, fsize = 0, block = 5 + n,
                           atime = 0, mtime = 0, ctime = 0\<rparr>
                     else zero_inode),
      mem = (\<lambda>a. if 20480 \<le> a \<and> a < 24576
                  then (if (a - 20480) mod 64 = 0
                        then (if (a - 20480) div 64 < 2 then CHR ''.''
                              else char_of ((a - 20480) div 64 + 63))
                        else if (a - 20480) mod 64 = 1
                        then (if (a - 20480) div 64 = 1 then CHR ''.'' else NUL)
                        else if (a - 20480) mod 64 = 48
                        then (if (a - 20480) div 64 < 2 then NUL
                              else char_of ((a - 20480) div 64 - 1))
                        else NUL)
                  else NUL)\<rparr>"


section \<open>Scanning a bitmap\<close>



section \<open>Runs on a fresh image\<close>

text \<open>
  The runs below start from \<open>fresh_image 256 5\<close>: 256 blocks, of which block 0 and four
  inode-table blocks are reserved, so that the first data block is block 5 at image
  offset 20480. A run that faults yields \<open>False\<close>. Time stamps and the caller's uid are
  arbitrary unless a number is given.
\<close>

text \<open>
  C1 (directory packing invariant; root directory after a fresh \<open>storage_init\<close>).
  The code breaks the invariant at once: after \<open>storage_init\<close> on a fresh image the root
  directory has 5 live entries, because \<open>new_root->size\<close> is set to
  \<open>5 * sizeof(dir_entry_t)\<close>, while only the entries 0 and 1 are written; the live entry at
  index 2 has a NUL first byte.
\<close>

theorem storage_init_root_not_packed:
  "case storage_init t0 (fresh_image 256 5) of
     Inl f \<Rightarrow> False
   | Inr s \<Rightarrow>
       root_block s = 0 \<and> S_ISDIR (mode (inodes s 0)) \<and>
       entry_count (fsize (inodes s 0)) = 5 \<and>
       (case blocks_get_block s (block (inodes s 0)) of
          None \<Rightarrow> False
        | Some entries \<Rightarrow>
            mem s (entry_name entries 2) = NUL \<and>
            mem s (entry_name entries 3) = NUL \<and>
            mem s (entry_name entries 4) = NUL)"
  by code_simp

text \<open>
  C2 (bitmap faithfulness after \<open>mknod\<close> of an empty file and a first write).
  The code breaks the invariant: \<open>mknod\<close> gives the new inode 1 the block 6; the first
  write finds \<open>current_blocks = 0 < required_blocks = 1\<close>, allocates block 7 and stores it
  in \<open>node->block\<close>. Afterwards bit 6 of the block bitmap is still set, block 6 is not a
  header or table block, and no allocated inode has \<open>block = 6\<close>.
\<close>

theorem write_after_mknod_leaks_block:
  "case storage_init t0 (fresh_image 256 5) of
     Inl f \<Rightarrow> False
   | Inr s0 \<Rightarrow>
       (case nufs_mknod s0 ''/a'' (S_IFREG OR 420) t1 of
          Inl f \<Rightarrow> False
        | Inr (rv1, s1) \<Rightarrow>
            rv1 = 0 \<and> storage_lookup_path s1 ''/a'' = Inr 1 \<and> block (inodes s1 1) = 6 \<and>
            (case nufs_write s1 ''/a'' ''hello'' 5 0 of
               Inl f \<Rightarrow> False
             | Inr (rv2, s2) \<Rightarrow>
                 rv2 = 5 \<and> block (inodes s2 1) = 7 \<and>
                 block_bitmap s2 6 \<and> nreserved s2 \<le> 6 \<and>
                 filter (\<lambda>n. inode_bitmap s2 n \<and> block (inodes s2 n) = 6) [0..255] = []))"
  by code_simp

text \<open>
  C3 (root initialization). On a fresh image the persisted root number is 0, which
  \<open>storage_init\<close> takes as invalid. It allocates inode 0 with mode \<open>S_IFDIR | 0755\<close>,
  allocates block 5, writes "." and ".." pointing to inode 0 at indices 0 and 1 and
  persists root number 0, as specified; but it sets the size to 5 entries (320
  bytes), not to the 2 entries (128 bytes) that it wrote.
\<close>

theorem storage_init_root_size:
  "case storage_init t0 (fresh_image 256 5) of
     Inl f \<Rightarrow> False
   | Inr s \<Rightarrow>
       root_block s = 0 \<and> inode_bitmap s 0 \<and>
       mode (inodes s 0) = (S_IFDIR OR 493) \<and>
       block (inodes s 0) = 5 \<and> block_bitmap s 5 \<and>
       blocks_get_block s 5 = Some 20480 \<and>
       str_eq_at (mem s) (entry_name 20480 0) ''.'' \<and>
       load_int (mem s) (entry_inum 20480 0) = 0 \<and>
       str_eq_at (mem s) (entry_name 20480 1) ''..'' \<and>
       load_int (mem s) (entry_inum 20480 1) = 0 \<and>
       fsize (inodes s 0) = 5 * sizeof_dir_entry \<and>
       fsize (inodes s 0) > 2 * sizeof_dir_entry"
  by code_simp

text \<open>
  C4 (\<open>mknod\<close> rollback). When the parent directory is full, \<open>directory_put\<close> fails
  with \<open>ENOSPC\<close> after the inode and the block have been allocated. \<open>storage_mknod\<close>
  frees both; \<open>storage_mknod_at\<close> returns the error of \<open>directory_put\<close> as it is and
  leaves inode 63 and block 68 allocated, referenced by no directory entry.
\<close>

theorem storage_mknod_at_no_rollback:
  "\<not> inode_bitmap full_root_image 63 \<and> \<not> block_bitmap full_root_image 68 \<and>
   (case storage_mknod_at full_root_image 0 ''new'' (S_IFREG OR 420) t of
      Inl f \<Rightarrow> False
    | Inr (rv, s') \<Rightarrow> rv = - ENOSPC \<and> inode_bitmap s' 63 \<and> block_bitmap s' 68) \<and>
   (case storage_mknod full_root_image ''/new'' (S_IFREG OR 420) t of
      Inl f \<Rightarrow> False
    | Inr (rv, s') \<Rightarrow> rv = - ENOSPC \<and> \<not> inode_bitmap s' 63 \<and> \<not> block_bitmap s' 68)"
  by code_simp



text \<open>
  C7 (\<open>directory_put\<close> updates \<open>mtime\<close> on every successful put). The code does not on
  the path that reuses a slot: the root of a fresh image, initialised at time 100, has a
  slot with a NUL first byte at index 2; \<open>directory_put\<close> at time 200 writes the entry
  there, returns 0, and leaves \<open>mtime\<close> (and the size) as they were.
\<close>

theorem directory_put_reuse_keeps_mtime:
  "case storage_init 100 (fresh_image 256 5) of
     Inl f \<Rightarrow> False
   | Inr s0 \<Rightarrow>
       (case directory_put s0 (Some 0) ''x'' 1 200 of
          Inl f \<Rightarrow> False
        | Inr (rv, s1) \<Rightarrow>
            rv = 0 \<and> mtime (inodes s0 0) = 100 \<and> mtime (inodes s1 0) = 100 \<and>
            fsize (inodes s1 0) = fsize (inodes s0 0) \<and>
            str_eq_at (mem s1) (entry_name 20480 2) ''x'' \<and>
            load_int (mem s1) (entry_inum 20480 2) = 1)"
  by code_simp

section \<open>General facts\<close>

lemma to_int32_id:
  assumes "int32 x"
  shows "to_int32 x = x"
proof (cases "0 \<le> x")
  case True
  with assms have "x mod 4294967296 = x"
    by (simp add: int32_def)
  with assms show ?thesis
    by (simp add: to_int32_def int32_def)
next
  case False
  with assms have "(x + 4294967296) mod 4294967296 = x + 4294967296"
    by (intro mod_pos_pos_trivial) (simp_all add: int32_def)
  then have "x mod 4294967296 = x + 4294967296"
    by simp
  with False assms show ?thesis
    by (simp add: to_int32_def int32_def)
qed


lemma init_fresh:
  "\<exists>s0. storage_init 100 (fresh_image 256 5) = Inr s0 \<and>
     S_ISDIR (mode (inodes s0 0)) \<and> fsize (inodes s0 0) = 320 \<and> block (inodes s0 0) = 5 \<and>
     nblocks s0 = 256 \<and> nreserved s0 = 5"
proof -
  have "case storage_init 100 (fresh_image 256 5) of Inl f \<Rightarrow> False
        | Inr s0 \<Rightarrow> S_ISDIR (mode (inodes s0 0)) \<and> fsize (inodes s0 0) = 320 \<and> block (inodes s0 0) = 5 \<and>
     nblocks s0 = 256 \<and> nreserved s0 = 5"
    by code_simp
  then show ?thesis
    by (cases "storage_init 100 (fresh_image 256 5)") auto
qed



section \<open>Error propagation\<close>











section \<open>Truncate\<close>

text \<open>
  C10 as stated (for every path that resolves to an existing inode, \<open>truncate(path,
  size)\<close> sets the size field to the given value) fails for a value that is not a C
  \<open>int\<close>: the argument is an \<open>off_t\<close> and the field an \<open>int\<close>, and
  \<open>node->size = size\<close> converts. Truncating the empty file "/a" to 4294967303 bytes
  (2^32 + 7) returns 0 and leaves the size 7.
\<close>

theorem truncate_wraps_size:
  "case storage_init 100 (fresh_image 256 5) of
     Inl f \<Rightarrow> False
   | Inr s0 \<Rightarrow>
       (case nufs_mknod s0 ''/a'' (S_IFREG OR 420) 200 of
          Inl f \<Rightarrow> False
        | Inr (rv1, s1) \<Rightarrow>
            rv1 = 0 \<and> storage_lookup_path s1 ''/a'' = Inr 1 \<and> fsize (inodes s1 1) = 0 \<and>
            (case nufs_truncate s1 ''/a'' 4294967303 of
               Inl f \<Rightarrow> False
             | Inr (rv, s2) \<Rightarrow>
                 rv = 0 \<and> fsize (inodes s2 1) = 7 \<and> fsize (inodes s2 1) \<noteq> 4294967303))"
  by code_simp

text \<open>
  C10 as amended (\<open>nufs_truncate\<close> makes no file-type check). Whenever the path
  resolves to an inode number in range, whatever the mode of that inode, \<open>nufs_truncate\<close>
  returns 0 and the only change to the image is that inode's size, set to the given value
  converted to \<open>int\<close>: the given value itself when it fits a 32-bit \<open>int\<close>. It returns
  \<open>-ENOENT\<close>, with the image unchanged, when the resolution fails or gives a number
  outside the inode table. The instance below truncates the root directory of a fresh
  image from 5 live entries to 2.
\<close>

theorem nufs_truncate_spec:
  "(storage_lookup_path s path = Inr n \<and> get_inode n = Some node \<longrightarrow>
      nufs_truncate s path sz =
        Inr (0, s\<lparr>inodes := (inodes s)(node := (inodes s node)\<lparr>fsize := to_int32 sz\<rparr>)\<rparr>)
      \<and> node = n \<and> (int32 sz \<longrightarrow> to_int32 sz = sz))
   \<and> (storage_lookup_path s path = Inr n \<and> get_inode n = None \<longrightarrow>
        nufs_truncate s path sz = Inr (- ENOENT, s))
   \<and> (storage_lookup_path s path = Inl f \<longrightarrow> nufs_truncate s path sz = Inl f)"
  by (auto simp: nufs_truncate_def to_int32_id get_inode_def split: if_splits)

theorem nufs_truncate_spec_witness:
  "case storage_init 100 (fresh_image 256 5) of
     Inl f \<Rightarrow> False
   | Inr s0 \<Rightarrow>
       storage_lookup_path s0 ''/'' = Inr 0 \<and> get_inode 0 = Some 0 \<and>
       S_ISDIR (mode (inodes s0 0)) \<and> entry_count (fsize (inodes s0 0)) = 5 \<and>
       (case nufs_truncate s0 ''/'' 128 of
          Inl f \<Rightarrow> False
        | Inr (rv, s1) \<Rightarrow>
            rv = 0 \<and> S_ISDIR (mode (inodes s1 0)) \<and> fsize (inodes s1 0) = 128 \<and>
            entry_count (fsize (inodes s1 0)) = 2)"
proof -
  obtain s0 where s0: "storage_init 100 (fresh_image 256 5) = Inr s0"
    and d: "S_ISDIR (mode (inodes s0 0))" and sz: "fsize (inodes s0 0) = 320"
    using init_fresh by blast
  have l: "storage_lookup_path s0 ''/'' = Inr 0"
    by (simp add: storage_lookup_path_def c_str_def NUL_def)
  have g: "get_inode 0 = Some 0"
    by (simp add: get_inode_def INODE_COUNT_def)
  have i: "int32 128"
    by (simp add: int32_def)
  from nufs_truncate_spec [of s0 "''/''" 0 0 128] l g i
  have t: "nufs_truncate s0 ''/'' 128 =
      Inr (0, s0\<lparr>inodes := (inodes s0)(0 := (inodes s0 0)\<lparr>fsize := 128\<rparr>)\<rparr>)"
    by simp
  have e5: "entry_count 320 = 5" and e2: "entry_count 128 = 2"
    by (simp_all add: entry_count_def to_size_t_def to_int32_def sizeof_dir_entry_def)
  show ?thesis
    using s0 l g d sz t e5 e2 by simp
qed

section \<open>Deleting a directory entry\<close>

lemma entry_count_int32:
  assumes "int32 sz"
  shows "entry_count sz = sz div 64"
proof (cases "0 \<le> sz")
  case True
  with assms have a: "to_size_t sz = sz"
    by (simp add: to_size_t_def int32_def)
  from True assms have "int32 (sz div 64)"
    by (simp add: int32_def) linarith
  with a show ?thesis
    by (simp add: entry_count_def sizeof_dir_entry_def to_int32_id)
next
  case False
  with assms have "(sz + 18446744073709551616) mod 18446744073709551616 = sz + 18446744073709551616"
    by (intro mod_pos_pos_trivial) (simp_all add: int32_def)
  then have a: "to_size_t sz = sz + 18446744073709551616"
    by (simp add: to_size_t_def)
  have b: "(sz + 18446744073709551616) div 64 = sz div 64 + 288230376151711744"
    using div_mult_self1 [of 64 sz 288230376151711744] by simp
  from False assms have q: "- 33554432 \<le> sz div 64" "sz div 64 < 0"
    by (simp_all add: int32_def)
  have "(sz div 64 + 288230376151711744) mod 4294967296 = (sz div 64 + 4294967296) mod 4294967296"
    using mod_mult_self1 [of "sz div 64 + 4294967296" 67108863 4294967296]
    by (simp add: add.commute)
  also have "\<dots> = sz div 64 + 4294967296"
    using q by (intro mod_pos_pos_trivial) simp_all
  finally have "to_int32 (sz div 64 + 288230376151711744) = sz div 64"
    using q by (simp add: to_int32_def)
  with a b show ?thesis
    by (simp add: entry_count_def sizeof_dir_entry_def)
qed

lemma delete_loop_found:
  assumes "i0 \<le> j" and "j < count" and "name_matches (mem s) entries name j"
    and "\<forall>k. i0 \<le> k \<and> k < j \<longrightarrow> \<not> name_matches (mem s) entries name k"
  shows "delete_loop s d entries name count now i0 =
           (0, set_mtime (remove_entry s d entries count j) d now)"
  using assms
proof (induction "nat (j - i0)" arbitrary: i0)
  case 0
  then have "i0 = j" by simp
  with 0 show ?case
    by (subst delete_loop.simps) simp
next
  case (Suc n)
  then have lt: "i0 < j" and n: "n = nat (j - (i0 + 1))"
    by simp_all
  from Suc.prems lt have nm: "\<not> name_matches (mem s) entries name i0"
    by simp
  from Suc.prems lt have rest: "\<forall>k. i0 + 1 \<le> k \<and> k < j \<longrightarrow> \<not> name_matches (mem s) entries name k"
    by simp
  have "delete_loop s d entries name count now (i0 + 1) =
          (0, set_mtime (remove_entry s d entries count j) d now)"
    using Suc.hyps(1) [OF n _ Suc.prems(2) Suc.prems(3) rest] lt by simp
  with nm lt Suc.prems(2) show ?case
    by (subst delete_loop.simps) simp
qed

lemma delete_loop_not_found:
  assumes "\<forall>k. i0 \<le> k \<and> k < count \<longrightarrow> \<not> name_matches (mem s) entries name k"
  shows "delete_loop s d entries name count now i0 = (- ENOENT, s)"
  using assms
proof (induction "nat (count - i0)" arbitrary: i0)
  case 0
  then have "\<not> i0 < count" by simp
  then show ?case
    by (subst delete_loop.simps) simp
next
  case (Suc n)
  then have lt: "i0 < count" and n: "n = nat (count - (i0 + 1))"
    by simp_all
  from Suc.prems lt have nm: "\<not> name_matches (mem s) entries name i0"
    by simp
  from Suc.prems have rest: "\<forall>k. i0 + 1 \<le> k \<and> k < count \<longrightarrow> \<not> name_matches (mem s) entries name k"
    by simp
  from Suc.hyps(1) [OF n rest] nm lt show ?case
    by (subst delete_loop.simps) simp
qed

lemma remove_entry_mem:
  assumes "0 \<le> i" and "i < count"
  shows "mem (remove_entry s d entries count i) =
     (\<lambda>x. if entry_name entries i \<le> x \<and> x < entry_name entries (count - 1)
           then mem s (x + sizeof_dir_entry)
           else if entry_name entries (count - 1) \<le> x \<and> x < entry_name entries count
           then NUL
           else mem s x)"
proof (rule ext)
  fix x
  show "mem (remove_entry s d entries count i) x =
     (if entry_name entries i \<le> x \<and> x < entry_name entries (count - 1)
           then mem s (x + sizeof_dir_entry)
           else if entry_name entries (count - 1) \<le> x \<and> x < entry_name entries count
           then NUL
           else mem s x)"
    using assms
    by (auto simp: remove_entry_def Let_def memset_def memmove_def entry_name_def
        sizeof_dir_entry_def DIR_NAME_LENGTH_def algebra_simps)
qed

lemma remove_entry_fsize:
  assumes "int32 (fsize (inodes s d))" and "0 < entry_count (fsize (inodes s d))"
  shows "inodes (remove_entry s d entries count i) =
     (inodes s)(d := (inodes s d)\<lparr>fsize := fsize (inodes s d) - sizeof_dir_entry\<rparr>)"
proof -
  from assms have ge: "64 \<le> fsize (inodes s d)"
    by (simp add: entry_count_int32 pos_imp_zdiv_pos_iff)
  with assms(1) have "to_size_t (fsize (inodes s d)) = fsize (inodes s d)"
    by (simp add: to_size_t_def int32_def)
  moreover from ge assms(1) have "int32 (fsize (inodes s d) - 64)"
    by (simp add: int32_def)
  ultimately show ?thesis
    by (simp add: remove_entry_def Let_def sizeof_dir_entry_def to_int32_id)
qed

text \<open>
  C8 (\<open>directory_delete\<close>). For a directory inode \<open>d\<close> whose block is a data block
  at offset \<open>entries\<close> and whose size is a C \<open>int\<close>, the number of live entries is
  \<open>size / E\<close>. If \<open>i\<close> is the first live index whose entry matches the name (first byte
  not NUL and \<open>strcmp\<close> equal), \<open>directory_delete\<close> returns 0 and the only changes are:
  every byte from entry \<open>i\<close> up to the last live entry is replaced by the byte one slot
  (E bytes) further on, so that the matched record is gone and the following live
  entries have moved left by one slot in their order; the slot of the last live entry
  is all NUL; every other byte of the image is as before; the directory's size is
  smaller by E and its \<open>mtime\<close> is the current time. If no live entry matches, it returns
  \<open>-ENOENT\<close> and the image is unchanged.
\<close>

theorem directory_delete_spec:
  assumes dir: "S_ISDIR (mode (inodes s d))"
    and blk: "blocks_get_block s (block (inodes s d)) = Some entries"
    and sz: "int32 (fsize (inodes s d))"
    and cnt: "count = entry_count (fsize (inodes s d))"
  shows "count = fsize (inodes s d) div sizeof_dir_entry \<and>
    (\<forall>i. 0 \<le> i \<and> i < count \<and> name_matches (mem s) entries name i \<and>
         (\<forall>k. 0 \<le> k \<and> k < i \<longrightarrow> \<not> name_matches (mem s) entries name k) \<longrightarrow>
       directory_delete s (Some d) name now =
         Inr (0, s\<lparr>mem :=
                    (\<lambda>x. if entry_name entries i \<le> x \<and> x < entry_name entries (count - 1)
                          then mem s (x + sizeof_dir_entry)
                          else if entry_name entries (count - 1) \<le> x
                                  \<and> x < entry_name entries count
                          then NUL
                          else mem s x),
                  inodes := (inodes s)
                    (d := (inodes s d)
                       \<lparr>fsize := fsize (inodes s d) - sizeof_dir_entry, mtime := now\<rparr>)\<rparr>)) \<and>
    ((\<forall>k. 0 \<le> k \<and> k < count \<longrightarrow> \<not> name_matches (mem s) entries name k) \<longrightarrow>
       directory_delete s (Some d) name now = Inr (- ENOENT, s))"
proof (intro conjI allI impI)
  show "count = fsize (inodes s d) div sizeof_dir_entry"
    using sz cnt by (simp add: entry_count_int32 sizeof_dir_entry_def)
next
  fix i
  assume a: "0 \<le> i \<and> i < count \<and> name_matches (mem s) entries name i \<and>
         (\<forall>k. 0 \<le> k \<and> k < i \<longrightarrow> \<not> name_matches (mem s) entries name k)"
  then have pos: "0 < entry_count (fsize (inodes s d))"
    using cnt by simp
  from a have "delete_loop s d entries name count now 0 =
      (0, set_mtime (remove_entry s d entries count i) d now)"
    by (intro delete_loop_found) simp_all
  moreover have "set_mtime (remove_entry s d entries count i) d now =
      s\<lparr>mem := mem (remove_entry s d entries count i),
        inodes := (inodes (remove_entry s d entries count i))
          (d := (inodes (remove_entry s d entries count i) d)\<lparr>mtime := now\<rparr>)\<rparr>"
    by (simp add: set_mtime_def remove_entry_def Let_def)
  ultimately show "directory_delete s (Some d) name now =
         Inr (0, s\<lparr>mem :=
                    (\<lambda>x. if entry_name entries i \<le> x \<and> x < entry_name entries (count - 1)
                          then mem s (x + sizeof_dir_entry)
                          else if entry_name entries (count - 1) \<le> x
                                  \<and> x < entry_name entries count
                          then NUL
                          else mem s x),
                  inodes := (inodes s)
                    (d := (inodes s d)
                       \<lparr>fsize := fsize (inodes s d) - sizeof_dir_entry, mtime := now\<rparr>)\<rparr>)"
    using a dir blk cnt remove_entry_mem [of i count s d entries]
      remove_entry_fsize [OF sz pos, of entries count i]
    by (simp add: directory_delete_def)
next
  assume "\<forall>k. 0 \<le> k \<and> k < count \<longrightarrow> \<not> name_matches (mem s) entries name k"
  then have "delete_loop s d entries name count now 0 = (- ENOENT, s)"
    by (intro delete_loop_not_found) simp
  with dir blk cnt show "directory_delete s (Some d) name now = Inr (- ENOENT, s)"
    by (simp add: directory_delete_def)
qed

section \<open>Inserting a directory entry\<close>

lemma empty_slot_found:
  assumes "i0 \<le> j" and "j < count" and "m (entry_name entries j) = NUL"
    and "\<forall>k. i0 \<le> k \<and> k < j \<longrightarrow> m (entry_name entries k) \<noteq> NUL"
  shows "empty_slot m entries count i0 = j"
  using assms
proof (induction "nat (j - i0)" arbitrary: i0)
  case 0
  then have "i0 = j" by simp
  with 0 show ?case
    by (subst empty_slot.simps) simp
next
  case (Suc n)
  then have lt: "i0 < j" and n: "n = nat (j - (i0 + 1))"
    by simp_all
  from Suc.prems lt have nz: "m (entry_name entries i0) \<noteq> NUL"
    by simp
  from Suc.prems lt have rest: "\<forall>k. i0 + 1 \<le> k \<and> k < j \<longrightarrow> m (entry_name entries k) \<noteq> NUL"
    by simp
  have "empty_slot m entries count (i0 + 1) = j"
    using Suc.hyps(1) [OF n _ Suc.prems(2) Suc.prems(3) rest] lt by simp
  with nz lt Suc.prems(2) show ?case
    by (subst empty_slot.simps) simp
qed

lemma empty_slot_none:
  assumes "\<forall>k. i0 \<le> k \<and> k < count \<longrightarrow> m (entry_name entries k) \<noteq> NUL"
  shows "empty_slot m entries count i0 = - 1"
  using assms
proof (induction "nat (count - i0)" arbitrary: i0)
  case 0
  then have "\<not> i0 < count" by simp
  then show ?case
    by (subst empty_slot.simps) simp
next
  case (Suc n)
  then have lt: "i0 < count" and n: "n = nat (count - (i0 + 1))"
    by simp_all
  from Suc.prems lt have nz: "m (entry_name entries i0) \<noteq> NUL"
    by simp
  from Suc.prems have rest: "\<forall>k. i0 + 1 \<le> k \<and> k < count \<longrightarrow> m (entry_name entries k) \<noteq> NUL"
    by simp
  from Suc.hyps(1) [OF n rest] nz lt show ?case
    by (subst empty_slot.simps) simp
qed

text \<open>\<open>directory_put\<close> on a directory whose block is a data block and whose size is a
  non-negative C \<open>int\<close>: the entry goes to the first slot of the live prefix whose name
  starts with NUL, and then nothing but the bytes of that slot changes, \<open>mtime\<close>
  included; without such a slot it is appended at index \<open>count\<close> when \<open>count < 64\<close>,
  with the size larger by E and \<open>mtime\<close> set; and the result is \<open>-ENOSPC\<close> with the image
  unchanged when there is no such slot and \<open>count \<ge> 64\<close>.\<close>

lemma directory_put_cases:
  assumes dir: "S_ISDIR (mode (inodes s d))"
    and blk: "blocks_get_block s (block (inodes s d)) = Some entries"
    and sz: "int32 (fsize (inodes s d))" "0 \<le> fsize (inodes s d)"
    and cnt: "count = entry_count (fsize (inodes s d))"
  shows "(\<forall>i. 0 \<le> i \<and> i < count \<and> mem s (entry_name entries i) = NUL \<and>
            (\<forall>k. 0 \<le> k \<and> k < i \<longrightarrow> mem s (entry_name entries k) \<noteq> NUL) \<longrightarrow>
          directory_put s (Some d) name n now =
            Inr (0, s\<lparr>mem := write_entry (mem s) entries i name n\<rparr>)) \<and>
     ((\<forall>k. 0 \<le> k \<and> k < count \<longrightarrow> mem s (entry_name entries k) \<noteq> NUL) \<and> count < 64 \<longrightarrow>
          directory_put s (Some d) name n now =
            Inr (0, s\<lparr>mem := write_entry (mem s) entries count name n,
                      inodes := (inodes s)
                        (d := (inodes s d)
                           \<lparr>fsize := fsize (inodes s d) + sizeof_dir_entry, mtime := now\<rparr>)\<rparr>)) \<and>
     ((\<forall>k. 0 \<le> k \<and> k < count \<longrightarrow> mem s (entry_name entries k) \<noteq> NUL) \<and> 64 \<le> count \<longrightarrow>
          directory_put s (Some d) name n now = Inr (- ENOSPC, s))"
proof -
  from sz cnt have c: "count = fsize (inodes s d) div 64" and c0: "0 \<le> count"
    by (simp_all add: entry_count_int32 pos_imp_zdiv_nonneg_iff)
  from sz have c1: "count < 33554432"
    unfolding c by (simp add: int32_def)
  from c0 c1 have ts: "to_size_t count = count"
    by (simp add: to_size_t_def)
  from sz have tf: "to_size_t (fsize (inodes s d)) = fsize (inodes s d)"
    by (simp add: to_size_t_def int32_def)
  show ?thesis
  proof (intro conjI allI impI)
    fix i
    assume a: "0 \<le> i \<and> i < count \<and> mem s (entry_name entries i) = NUL \<and>
            (\<forall>k. 0 \<le> k \<and> k < i \<longrightarrow> mem s (entry_name entries k) \<noteq> NUL)"
    then have "empty_slot (mem s) entries count 0 = i"
      by (intro empty_slot_found) simp_all
    with a dir blk cnt show "directory_put s (Some d) name n now =
            Inr (0, s\<lparr>mem := write_entry (mem s) entries i name n\<rparr>)"
      by (simp add: directory_put_def Let_def)
  next
    assume a: "(\<forall>k. 0 \<le> k \<and> k < count \<longrightarrow> mem s (entry_name entries k) \<noteq> NUL) \<and> count < 64"
    then have e: "empty_slot (mem s) entries count 0 = - 1"
      by (intro empty_slot_none) simp
    from a have "count < 64"
      by simp
    with c have "fsize (inodes s d) < 4096"
      by arith
    with sz have "int32 (fsize (inodes s d) + 64)"
      by (simp add: int32_def)
    with a e dir blk cnt ts tf show "directory_put s (Some d) name n now =
            Inr (0, s\<lparr>mem := write_entry (mem s) entries count name n,
                      inodes := (inodes s)
                        (d := (inodes s d)
                           \<lparr>fsize := fsize (inodes s d) + sizeof_dir_entry, mtime := now\<rparr>)\<rparr>)"
      by (simp add: directory_put_def Let_def to_size_t_def BLOCK_SIZE_def sizeof_dir_entry_def
          to_int32_id)
  next
    assume a: "(\<forall>k. 0 \<le> k \<and> k < count \<longrightarrow> mem s (entry_name entries k) \<noteq> NUL) \<and> 64 \<le> count"
    then have e: "empty_slot (mem s) entries count 0 = - 1"
      by (intro empty_slot_none) simp
    with a dir blk cnt ts show "directory_put s (Some d) name n now = Inr (- ENOSPC, s)"
      by (simp add: directory_put_def Let_def to_size_t_def BLOCK_SIZE_def sizeof_dir_entry_def)
  qed
qed

text \<open>What \<open>write_entry\<close> stores: at most 47 bytes of the name, NUL from there to the
  end of the 48-byte field, and the inode number.\<close>

lemma write_entry_name:
  assumes "0 \<le> k" and "k < 48"
  shows "write_entry m entries i name n (entry_name entries i + k) =
     (if k < 47 \<and> nat k < length (c_str name) then c_str name ! nat k else NUL)"
  using assms
  by (auto simp: write_entry_def store_int_def memset_def strncpy_def entry_name_def
      entry_inum_def DIR_NAME_LENGTH_def sizeof_dir_entry_def)

lemma le_bytes:
  fixes v :: int
  shows "v mod 256 + 256 * (v div 256 mod 256) + 65536 * (v div 65536 mod 256)
           + 16777216 * (v div 16777216 mod 256) = v mod 4294967296"
proof -
  have d: "v div 256 div 256 = v div 65536" "v div 65536 div 256 = v div 16777216"
    by (simp_all add: div_mult2_eq [symmetric])
  have a: "v mod 4294967296 = 256 * (v div 256 mod 16777216) + v mod 256"
    using zmod_zmult2_eq [of 16777216 v 256] by simp
  have b: "v div 256 mod 16777216 = 256 * (v div 65536 mod 65536) + v div 256 mod 256"
    using zmod_zmult2_eq [of 65536 "v div 256" 256] by (simp add: d)
  have c: "v div 65536 mod 65536 = 256 * (v div 16777216 mod 256) + v div 65536 mod 256"
    using zmod_zmult2_eq [of 256 "v div 65536" 256] by (simp add: d)
  show ?thesis
    by (simp add: a b c)
qed

lemma load_store_int:
  assumes "int32 v"
  shows "load_int (store_int m a v) a = v"
proof -
  have "load_int (store_int m a v) a = to_int32 (v mod 4294967296)"
    by (simp add: load_int_def store_int_def le_bytes)
  also have "\<dots> = to_int32 v"
    by (simp add: to_int32_def)
  also have "\<dots> = v"
    using assms by (rule to_int32_id)
  finally show ?thesis .
qed

lemma write_entry_inum:
  assumes "int32 n"
  shows "load_int (write_entry m entries i name n) (entry_inum entries i) = n"
  using assms by (simp add: write_entry_def load_store_int)

section \<open>Unlink\<close>















section \<open>Instances on a fresh image\<close>

lemma init_fresh_root:
  "\<exists>s0. storage_init 100 (fresh_image 256 5) = Inr s0 \<and>
     S_ISDIR (mode (inodes s0 0)) \<and> fsize (inodes s0 0) = 320 \<and> block (inodes s0 0) = 5 \<and>
     nblocks s0 = 256 \<and> nreserved s0 = 5 \<and>
     mem s0 20480 = CHR ''.'' \<and> mem s0 20481 = NUL \<and> mem s0 20608 = NUL \<and>
     name_matches (mem s0) 20480 ''..'' 1 \<and> \<not> name_matches (mem s0) 20480 ''..'' 0 \<and>
     \<not> name_matches (mem s0) 20480 ''x'' 0 \<and> \<not> name_matches (mem s0) 20480 ''x'' 1 \<and>
     \<not> name_matches (mem s0) 20480 ''x'' 2 \<and> \<not> name_matches (mem s0) 20480 ''x'' 3 \<and>
     \<not> name_matches (mem s0) 20480 ''x'' 4"
proof -
  have "case storage_init 100 (fresh_image 256 5) of Inl f \<Rightarrow> False
        | Inr s0 \<Rightarrow>
     S_ISDIR (mode (inodes s0 0)) \<and> fsize (inodes s0 0) = 320 \<and> block (inodes s0 0) = 5 \<and>
     nblocks s0 = 256 \<and> nreserved s0 = 5 \<and>
     mem s0 20480 = CHR ''.'' \<and> mem s0 20481 = NUL \<and> mem s0 20608 = NUL \<and>
     name_matches (mem s0) 20480 ''..'' 1 \<and> \<not> name_matches (mem s0) 20480 ''..'' 0 \<and>
     \<not> name_matches (mem s0) 20480 ''x'' 0 \<and> \<not> name_matches (mem s0) 20480 ''x'' 1 \<and>
     \<not> name_matches (mem s0) 20480 ''x'' 2 \<and> \<not> name_matches (mem s0) 20480 ''x'' 3 \<and>
     \<not> name_matches (mem s0) 20480 ''x'' 4"
    by code_simp
  then show ?thesis
    by (cases "storage_init 100 (fresh_image 256 5)") simp_all
qed

lemma int_below_5:
  fixes k :: int
  assumes "0 \<le> k \<and> k < 5"
  shows "k = 0 \<or> k = 1 \<or> k = 2 \<or> k = 3 \<or> k = 4"
  using assms by arith

theorem directory_delete_spec_witness:
  "case storage_init 100 (fresh_image 256 5) of
     Inl f \<Rightarrow> False
   | Inr s0 \<Rightarrow>
       S_ISDIR (mode (inodes s0 0)) \<and>
       blocks_get_block s0 (block (inodes s0 0)) = Some 20480 \<and>
       int32 (fsize (inodes s0 0)) \<and> entry_count (fsize (inodes s0 0)) = 5 \<and>
       name_matches (mem s0) 20480 ''..'' 1 \<and> \<not> name_matches (mem s0) 20480 ''..'' 0 \<and>
       (case directory_delete s0 (Some 0) ''..'' 200 of
          Inl f \<Rightarrow> False
        | Inr (rv, s1) \<Rightarrow>
            rv = 0 \<and> fsize (inodes s1 0) = 256 \<and> mtime (inodes s1 0) = 200 \<and>
            mem s1 20480 = CHR ''.'' \<and> mem s1 (entry_name 20480 1) = NUL \<and>
            mem s1 (entry_name 20480 4) = NUL) \<and>
       directory_delete s0 (Some 0) ''x'' 200 = Inr (- ENOENT, s0)"
proof -
  obtain s0 where s0: "storage_init 100 (fresh_image 256 5) = Inr s0"
    and d: "S_ISDIR (mode (inodes s0 0))" and sz: "fsize (inodes s0 0) = 320"
    and b: "block (inodes s0 0) = 5" and nb: "nblocks s0 = 256" and nr: "nreserved s0 = 5"
    and m: "mem s0 20480 = CHR ''.''" "mem s0 20481 = NUL" "mem s0 20608 = NUL"
    and dd: "name_matches (mem s0) 20480 ''..'' 1" "\<not> name_matches (mem s0) 20480 ''..'' 0"
    and x: "\<not> name_matches (mem s0) 20480 ''x'' 0" "\<not> name_matches (mem s0) 20480 ''x'' 1"
      "\<not> name_matches (mem s0) 20480 ''x'' 2" "\<not> name_matches (mem s0) 20480 ''x'' 3"
      "\<not> name_matches (mem s0) 20480 ''x'' 4"
    using init_fresh_root by blast
  have g: "blocks_get_block s0 (block (inodes s0 0)) = Some 20480"
    by (simp add: blocks_get_block_def b nb nr BLOCK_SIZE_def)
  have i: "int32 (fsize (inodes s0 0))"
    by (simp add: sz int32_def)
  have c: "5 = entry_count (fsize (inodes s0 0))"
    by (simp add: sz entry_count_def to_size_t_def to_int32_def sizeof_dir_entry_def)
  have first: "\<forall>k. 0 \<le> k \<and> k < 1 \<longrightarrow> \<not> name_matches (mem s0) 20480 ''..'' k"
  proof (intro allI impI)
    fix k :: int
    assume "0 \<le> k \<and> k < 1"
    then have "k = 0" by simp
    with dd(2) show "\<not> name_matches (mem s0) 20480 ''..'' k" by simp
  qed
  have none: "\<forall>k. 0 \<le> k \<and> k < 5 \<longrightarrow> \<not> name_matches (mem s0) 20480 ''x'' k"
    using x int_below_5 by blast
  note spec = directory_delete_spec [OF d g i c]
  from spec [of "''..''" 200] dd(1) first
  have del: "directory_delete s0 (Some 0) ''..'' 200 =
      Inr (0, s0\<lparr>mem :=
                    (\<lambda>x. if entry_name 20480 1 \<le> x \<and> x < entry_name 20480 (5 - 1)
                          then mem s0 (x + sizeof_dir_entry)
                          else if entry_name 20480 (5 - 1) \<le> x \<and> x < entry_name 20480 5
                          then NUL
                          else mem s0 x),
                  inodes := (inodes s0)
                    (0 := (inodes s0 0)
                       \<lparr>fsize := fsize (inodes s0 0) - sizeof_dir_entry, mtime := 200\<rparr>)\<rparr>)"
    by simp
  from spec [of "''x''" 200] none
  have nf: "directory_delete s0 (Some 0) ''x'' 200 = Inr (- ENOENT, s0)"
    by simp
  show ?thesis
    using s0 d g i c dd del nf m sz
    by (simp add: entry_name_def sizeof_dir_entry_def)
qed



end
